theory Spec2Isabelle
  imports Complex_Main "HOL-Library.Sublist"
begin

section \<open>The airline ticket store: data model\<close>

text \<open>
  The program keeps two SQLite tables, \<open>flights\<close> and \<open>bookings\<close>, behind the class
  \<open>DatabaseManager\<close> of \<open>airline_app.py\<close>. A table is modelled as the list of its rows in
  rowid order. Both tables have an \<open>INTEGER PRIMARY KEY AUTOINCREMENT\<close> column, so a new
  row receives a rowid larger than every rowid the table ever held and is appended at the
  end: list order, rowid order and insertion order agree.

  The columns \<open>price\<close> and \<open>total_price\<close> are \<open>REAL\<close> (Python floats). Their type is the
  parameter \<open>'p\<close>, and the one float operation of the source, \<open>price * num_seats\<close>, is the
  parameter \<open>mul\<close> of \<open>book_flight\<close>; nothing is assumed about floating-point arithmetic.
  Integer columns are Python integers (\<open>int\<close>); values are taken to stay inside SQLite's
  64-bit range. Failures of the storage engine itself (\<open>sqlite3.Error\<close>: I/O errors,
  locks) are outside the model, so the \<open>except\<close> branches that roll back are never taken
  and every \<open>commit\<close> succeeds.
\<close>

record 'p flight =
  flight_id :: int
  departure :: string
  destination :: string
  flight_date :: string
  flight_time :: string
  price :: 'p
  seats_available :: int

text \<open>The column \<open>bookings.flight_id\<close> is the field \<open>bk_flight_id\<close>.\<close>

record 'p booking =
  booking_id :: int
  bk_flight_id :: int
  passenger_name :: string
  num_seats :: int
  total_price :: 'p
  booking_date :: string

text \<open>
  The connection state: the two tables, the \<open>sqlite_sequence\<close> counters behind
  \<open>AUTOINCREMENT\<close> (the largest rowid each table ever held), the connection's
  \<open>last_insert_rowid()\<close>, and the value \<open>CURRENT_DATE\<close> yields for the default of
  \<open>booking_date\<close>.
\<close>

record 'p database =
  flights :: "'p flight list"
  bookings :: "'p booking list"
  flights_seq :: int
  bookings_seq :: int
  last_insert_rowid :: int
  current_date :: string

text \<open>
  \<open>DatabaseManager.conn\<close> is \<open>None\<close> when \<open>connect\<close> failed; every method starts with
  \<open>if not self.conn\<close>.
\<close>

type_synonym 'p DatabaseManager = "'p database option"

text \<open>
  The second component of the pairs \<open>(success, message)\<close> that \<open>book_flight\<close> and
  \<open>cancel_booking\<close> return:
  \<^item> \<open>Database_not_connected\<close>: "Database not connected."
  \<^item> \<open>Flight_not_found\<close>: "Flight not found."
  \<^item> \<open>Not_enough_seats n\<close>: "Not enough seats available. Only n seats left."
  \<^item> \<open>Flight_booked\<close>: "Flight booked successfully!"
  \<^item> \<open>Booking_not_found\<close>: "Booking not found."
  \<^item> \<open>Booking_cancelled\<close>: "Booking cancelled successfully!"
\<close>

datatype message =
  Database_not_connected
  | Flight_not_found
  | Not_enough_seats int
  | Flight_booked
  | Booking_not_found
  | Booking_cancelled

section \<open>SQL statements\<close>

text \<open>
  \<open>AUTOINCREMENT\<close>: the new rowid is one more than the larger of the table's counter in
  \<open>sqlite_sequence\<close> and the largest rowid present.
\<close>

definition next_rowid :: "int \<Rightarrow> int list \<Rightarrow> int" where
  "next_rowid seq ids = fold max ids seq + 1"

text \<open>\<open>SELECT ... FROM flights WHERE flight_id = ?\<close> followed by \<open>fetchone()\<close>.\<close>

definition select_flight :: "'p database \<Rightarrow> int \<Rightarrow> 'p flight option" where
  "select_flight s fid = find (\<lambda>f. flight_id f = fid) (flights s)"

text \<open>\<open>SELECT ... FROM bookings WHERE booking_id = ?\<close> followed by \<open>fetchone()\<close>.\<close>

definition select_booking :: "'p database \<Rightarrow> int \<Rightarrow> 'p booking option" where
  "select_booking s bid = find (\<lambda>b. booking_id b = bid) (bookings s)"

text \<open>\<open>UPDATE flights SET seats_available = ? WHERE flight_id = ?\<close>\<close>

definition update_seats_set :: "int \<Rightarrow> int \<Rightarrow> 'p database \<Rightarrow> 'p database" where
  "update_seats_set v fid s =
     s\<lparr>flights := map (\<lambda>f. if flight_id f = fid then f\<lparr>seats_available := v\<rparr> else f)
                        (flights s)\<rparr>"

text \<open>\<open>UPDATE flights SET seats_available = seats_available + ? WHERE flight_id = ?\<close>\<close>

definition update_seats_add :: "int \<Rightarrow> int \<Rightarrow> 'p database \<Rightarrow> 'p database" where
  "update_seats_add n fid s =
     s\<lparr>flights := map (\<lambda>f. if flight_id f = fid
                              then f\<lparr>seats_available := seats_available f + n\<rparr> else f)
                        (flights s)\<rparr>"

text \<open>
  \<open>INSERT INTO bookings (flight_id, passenger_name, num_seats, total_price) VALUES (?, ?, ?, ?)\<close>:
  \<open>booking_id\<close> is generated and \<open>booking_date\<close> takes its default.
\<close>

definition insert_booking ::
  "int \<Rightarrow> string \<Rightarrow> int \<Rightarrow> 'p \<Rightarrow> 'p database \<Rightarrow> 'p database" where
  "insert_booking fid name n tot s =
     (let bid = next_rowid (bookings_seq s) (map booking_id (bookings s))
      in s\<lparr>bookings := bookings s @
              [\<lparr>booking_id = bid, bk_flight_id = fid, passenger_name = name,
                num_seats = n, total_price = tot, booking_date = current_date s\<rparr>],
            bookings_seq := bid,
            last_insert_rowid := bid\<rparr>)"

text \<open>\<open>DELETE FROM bookings WHERE booking_id = ?\<close>\<close>

definition delete_booking :: "int \<Rightarrow> 'p database \<Rightarrow> 'p database" where
  "delete_booking bid s = s\<lparr>bookings := filter (\<lambda>b. booking_id b \<noteq> bid) (bookings s)\<rparr>"

text \<open>
  \<open>INSERT INTO flights (departure, destination, flight_date, flight_time, price,
  seats_available) VALUES (?, ?, ?, ?, ?, ?)\<close>
\<close>

definition insert_flight ::
  "string \<Rightarrow> string \<Rightarrow> string \<Rightarrow> string \<Rightarrow> 'p \<Rightarrow> int \<Rightarrow> 'p database \<Rightarrow> 'p database" where
  "insert_flight dep dest date time pr seats s =
     (let fid = next_rowid (flights_seq s) (map flight_id (flights s))
      in s\<lparr>flights := flights s @
              [\<lparr>flight_id = fid, departure = dep, destination = dest, flight_date = date,
                flight_time = time, price = pr, seats_available = seats\<rparr>],
            flights_seq := fid,
            last_insert_rowid := fid\<rparr>)"

section \<open>The methods of \<open>DatabaseManager\<close>\<close>

definition add_flight ::
  "'p DatabaseManager \<Rightarrow> string \<Rightarrow> string \<Rightarrow> string \<Rightarrow> string \<Rightarrow> 'p \<Rightarrow> int
     \<Rightarrow> bool \<times> 'p DatabaseManager" where
  "add_flight m dep dest date time pr seats =
     (case m of
        None \<Rightarrow> (False, m)
      | Some s \<Rightarrow> (True, Some (insert_flight dep dest date time pr seats s)))"

definition book_flight ::
  "('p \<Rightarrow> int \<Rightarrow> 'p) \<Rightarrow> 'p DatabaseManager \<Rightarrow> int \<Rightarrow> string \<Rightarrow> int
     \<Rightarrow> (bool \<times> message) \<times> 'p DatabaseManager" where
  "book_flight mul m fid name n =
     (case m of
        None \<Rightarrow> ((False, Database_not_connected), m)
      | Some s \<Rightarrow>
          (case select_flight s fid of
             None \<Rightarrow> ((False, Flight_not_found), m)
           | Some flight_info \<Rightarrow>
               (let pr = price flight_info; seats = seats_available flight_info
                in if n > seats then ((False, Not_enough_seats seats), m)
                   else (let tot = mul pr n
                         in ((True, Flight_booked),
                             Some (insert_booking fid name n tot
                                     (update_seats_set (seats - n) fid s)))))))"

definition cancel_booking ::
  "'p DatabaseManager \<Rightarrow> int \<Rightarrow> (bool \<times> message) \<times> 'p DatabaseManager" where
  "cancel_booking m bid =
     (case m of
        None \<Rightarrow> ((False, Database_not_connected), m)
      | Some s \<Rightarrow>
          (case select_booking s bid of
             None \<Rightarrow> ((False, Booking_not_found), m)
           | Some booking_info \<Rightarrow>
               (let fid = bk_flight_id booking_info; n = num_seats booking_info
                in ((True, Booking_cancelled),
                    Some (delete_booking bid (update_seats_add n fid s))))))"

section \<open>Reading the store\<close>

text \<open>What a caller sees of one flight: its \<open>seats_available\<close>, when the row exists.\<close>

definition seats_of :: "'p DatabaseManager \<Rightarrow> int \<Rightarrow> int option" where
  "seats_of m fid =
     (case m of None \<Rightarrow> None
      | Some s \<Rightarrow> map_option seats_available (select_flight s fid))"

text \<open>The flights table as a caller sees it.\<close>

definition flights_of :: "'p DatabaseManager \<Rightarrow> 'p flight list" where
  "flights_of m = (case m of None \<Rightarrow> [] | Some s \<Rightarrow> flights s)"

text \<open>The bookings table as a caller sees it.\<close>

definition bookings_of :: "'p DatabaseManager \<Rightarrow> 'p booking list" where
  "bookings_of m = (case m of None \<Rightarrow> [] | Some s \<Rightarrow> bookings s)"

text \<open>
  \<open>get_booking\<close> returns one row of the join of \<open>bookings\<close> with \<open>flights\<close>, in the
  column order of its \<open>SELECT\<close>, or \<open>None\<close>.
\<close>

record 'p booking_view =
  v_booking_id :: int
  v_departure :: string
  v_destination :: string
  v_flight_date :: string
  v_flight_time :: string
  v_passenger_name :: string
  v_num_seats :: int
  v_total_price :: 'p
  price_per_seat :: 'p

definition join_row :: "'p booking \<Rightarrow> 'p flight \<Rightarrow> 'p booking_view" where
  "join_row b f =
     \<lparr>v_booking_id = booking_id b, v_departure = departure f,
      v_destination = destination f, v_flight_date = flight_date f,
      v_flight_time = flight_time f, v_passenger_name = passenger_name b,
      v_num_seats = num_seats b, v_total_price = total_price b,
      price_per_seat = price f\<rparr>"

text \<open>
  \<open>FROM bookings b JOIN flights f ON b.flight_id = f.flight_id WHERE b.booking_id = ?\<close>:
  an inner join, so a booking without a flight row contributes nothing.
\<close>

definition join_bookings_flights :: "'p database \<Rightarrow> int \<Rightarrow> 'p booking_view list" where
  "join_bookings_flights s bid =
     concat (map (\<lambda>b. map (join_row b)
                          (filter (\<lambda>f. bk_flight_id b = flight_id f) (flights s)))
                 (filter (\<lambda>b. booking_id b = bid) (bookings s)))"

definition get_booking :: "'p DatabaseManager \<Rightarrow> int \<Rightarrow> 'p booking_view option" where
  "get_booking m bid =
     (case m of
        None \<Rightarrow> None
      | Some s \<Rightarrow> (case join_bookings_flights s bid of [] \<Rightarrow> None | r # _ \<Rightarrow> Some r))"

subsection \<open>Searching\<close>






subsection \<open>The booking handler of the window\<close>



section \<open>Sequences of operations\<close>

datatype op = Book int string int | Cancel int

fun step :: "('p \<Rightarrow> int \<Rightarrow> 'p) \<Rightarrow> 'p DatabaseManager \<Rightarrow> op \<Rightarrow> 'p DatabaseManager" where
  "step mul m (Book fid name n) = snd (book_flight mul m fid name n)"
| "step mul m (Cancel bid) = snd (cancel_booking m bid)"

definition run :: "('p \<Rightarrow> int \<Rightarrow> 'p) \<Rightarrow> 'p DatabaseManager \<Rightarrow> op list \<Rightarrow> 'p DatabaseManager" where
  "run mul m ops = foldl (step mul) m ops"

text \<open>The seats held by the bookings that reference one flight.\<close>

definition booked_seats :: "'p DatabaseManager \<Rightarrow> int \<Rightarrow> int" where
  "booked_seats m fid =
     sum_list (map num_seats (filter (\<lambda>b. bk_flight_id b = fid) (bookings_of m)))"

text \<open>
  What the schema guarantees of a store: \<open>booking_id\<close> is a primary key. What holds of
  every store the program builds, since it never deletes a flight: each booking
  references a flight row (SQLite does not enforce the \<open>FOREIGN KEY\<close> clause by default).
\<close>

definition pk_bookings :: "'p database \<Rightarrow> bool" where
  "pk_bookings s = distinct (map booking_id (bookings s))"

definition fk_bookings :: "'p database \<Rightarrow> bool" where
  "fk_bookings s =
     list_all (\<lambda>b. list_ex (\<lambda>f. flight_id f = bk_flight_id b) (flights s)) (bookings s)"

text \<open>A store with no negative seat count, on flights or in bookings.\<close>

definition seats_nonneg :: "'p DatabaseManager \<Rightarrow> bool" where
  "seats_nonneg m =
     (case m of
        None \<Rightarrow> True
      | Some s \<Rightarrow> list_all (\<lambda>f. 0 \<le> seats_available f) (flights s)
                  \<and> list_all (\<lambda>b. 0 \<le> num_seats b) (bookings s))"

fun book_nonneg :: "op \<Rightarrow> bool" where
  "book_nonneg (Book fid name n) = (0 \<le> n)"
| "book_nonneg (Cancel bid) = True"

section \<open>The seed data\<close>

text \<open>
  A database file that \<open>init_db\<close> has just created: both tables empty. The five seed
  flights of \<open>_add_dummy_data_if_empty\<close> carry float literals, so the seeded store has
  prices of type \<open>real\<close>; each literal, and each product used below, is exactly
  representable, so on these values the float product is \<open>exact_mul\<close>.
\<close>

definition empty_database :: "string \<Rightarrow> 'p database" where
  "empty_database today =
     \<lparr>flights = [], bookings = [], flights_seq = 0, bookings_seq = 0,
      last_insert_rowid = 0, current_date = today\<rparr>"

definition add_dummy_data_if_empty :: "real database \<Rightarrow> real database" where
  "add_dummy_data_if_empty s =
     (if length (flights s) = 0
      then (insert_flight ''Tokyo'' ''Sydney'' ''2025-07-12'' ''22:00'' 900 120
           (insert_flight ''New York'' ''Tokyo'' ''2025-07-10'' ''18:00'' 1200 200
           (insert_flight ''Paris'' ''Rome'' ''2025-07-03'' ''14:00'' 150 100
           (insert_flight ''London'' ''Paris'' ''2025-07-02'' ''10:30'' 200 80
           (insert_flight ''New York'' ''London'' ''2025-07-01'' ''08:00'' 750 150 s)))))
      else s)"

definition init_db :: "real DatabaseManager \<Rightarrow> real DatabaseManager" where
  "init_db m = (case m of None \<Rightarrow> None | Some s \<Rightarrow> Some (add_dummy_data_if_empty s))"

definition exact_mul :: "real \<Rightarrow> int \<Rightarrow> real" where
  "exact_mul p n = p * of_int n"

definition seeded_db :: "real database" where
  "seeded_db = add_dummy_data_if_empty (empty_database ''2025-06-01'')"

definition seeded :: "real DatabaseManager" where
  "seeded = init_db (Some (empty_database ''2025-06-01''))"

text \<open>The seeded store after \<open>book_flight(1, "A. Lee", 2)\<close>, and after cancelling that booking.\<close>

definition booked_db :: "real database" where
  "booked_db =
     seeded_db\<lparr>flights := (flights seeded_db)
                    [0 := (flights seeded_db ! 0)\<lparr>seats_available := 148\<rparr>],
               bookings := [\<lparr>booking_id = 1, bk_flight_id = 1, passenger_name = ''A. Lee'',
                            num_seats = 2, total_price = 1500,
                            booking_date = ''2025-06-01''\<rparr>],
               bookings_seq := 1, last_insert_rowid := 1\<rparr>"

definition cancelled_db :: "real database" where
  "cancelled_db = seeded_db\<lparr>bookings_seq := 1, last_insert_rowid := 1\<rparr>"

text \<open>
  A store whose only booking references flight 7, of which there is no row (a store the
  program itself never builds).
\<close>

definition orphaned_db :: "real database" where
  "orphaned_db =
     \<lparr>flights = [\<lparr>flight_id = 1, departure = ''Paris'', destination = ''Rome'',
                  flight_date = ''2025-07-03'', flight_time = ''14:00'',
                  price = 150, seats_available = 100\<rparr>],
      bookings = [\<lparr>booking_id = 1, bk_flight_id = 7, passenger_name = ''A. Lee'',
                   num_seats = 2, total_price = 300,
                   booking_date = ''2025-06-01''\<rparr>],
      flights_seq = 1, bookings_seq = 1, last_insert_rowid = 1,
      current_date = ''2025-06-01''\<rparr>"





section \<open>Auxiliary facts\<close>

subsection \<open>Generated rowids are fresh\<close>

lemma fold_max_ge_seq: "seq \<le> fold max ids (seq::int)"
  by (induction ids arbitrary: seq) (auto intro: order_trans[OF max.cobounded2])

lemma fold_max_ge_mem: "x \<in> set ids \<Longrightarrow> x \<le> fold max ids (seq::int)"
proof (induction ids arbitrary: seq)
  case Nil
  then show ?case by simp
next
  case (Cons a ids)
  show ?case
  proof (cases "x = a")
    case True
    have "a \<le> max a seq" by simp
    also have "\<dots> \<le> fold max ids (max a seq)" by (rule fold_max_ge_seq)
    finally show ?thesis using True by simp
  next
    case False
    with Cons.prems have "x \<in> set ids" by simp
    then show ?thesis using Cons.IH by simp
  qed
qed

lemma next_rowid_fresh: "next_rowid seq ids \<notin> set ids"
proof
  assume "next_rowid seq ids \<in> set ids"
  then have "next_rowid seq ids \<le> fold max ids seq" by (rule fold_max_ge_mem)
  then show False by (simp add: next_rowid_def)
qed

subsection \<open>Selections after each statement\<close>

lemma find_append_fresh:
  "bid \<notin> set (map booking_id bs) \<Longrightarrow> booking_id b = bid \<Longrightarrow>
   find (\<lambda>b. booking_id b = bid) (bs @ [b]) = Some b"
  by (induction bs) auto

lemma filter_fresh_append:
  "bid \<notin> set (map booking_id bs) \<Longrightarrow> booking_id b = bid \<Longrightarrow>
   filter (\<lambda>b. booking_id b = bid) (bs @ [b]) = [b]"
  by (induction bs) auto

lemma find_map_flight:
  assumes "\<And>f. flight_id (g f) = flight_id f"
  shows "find (\<lambda>f. flight_id f = fid) (map g fs) =
         map_option g (find (\<lambda>f. flight_id f = fid) fs)"
  by (induction fs) (auto simp: assms)

lemma select_flight_update_seats_set:
  "select_flight (update_seats_set v fid s) fid' =
     map_option (\<lambda>f. if flight_id f = fid then f\<lparr>seats_available := v\<rparr> else f)
       (select_flight s fid')"
  unfolding select_flight_def update_seats_set_def
  by (simp add: find_map_flight)

lemma select_flight_update_seats_add:
  "select_flight (update_seats_add n fid s) fid' =
     map_option (\<lambda>f. if flight_id f = fid
                      then f\<lparr>seats_available := seats_available f + n\<rparr> else f)
       (select_flight s fid')"
  unfolding select_flight_def update_seats_add_def
  by (simp add: find_map_flight)

lemma select_flight_insert_booking [simp]:
  "select_flight (insert_booking fid name n tot s) fid' = select_flight s fid'"
  by (simp add: select_flight_def insert_booking_def Let_def)

lemma select_flight_delete_booking [simp]:
  "select_flight (delete_booking bid s) fid' = select_flight s fid'"
  by (simp add: select_flight_def delete_booking_def)

lemma select_flight_Some_id: "select_flight s fid = Some f \<Longrightarrow> flight_id f = fid"
  unfolding select_flight_def by (auto dest: find_Some_iff[THEN iffD1])

lemma bookings_update_seats [simp]:
  "bookings (update_seats_set v fid s) = bookings s"
  "bookings (update_seats_add n fid s) = bookings s"
  "bookings_seq (update_seats_set v fid s) = bookings_seq s"
  "current_date (update_seats_set v fid s) = current_date s"
  by (simp_all add: update_seats_set_def update_seats_add_def)

lemma select_booking_insert_booking:
  "select_booking (insert_booking fid name n tot s)
       (last_insert_rowid (insert_booking fid name n tot s)) =
     Some \<lparr>booking_id = next_rowid (bookings_seq s) (map booking_id (bookings s)),
           bk_flight_id = fid, passenger_name = name, num_seats = n, total_price = tot,
           booking_date = current_date s\<rparr>"
  using next_rowid_fresh[of "bookings_seq s" "map booking_id (bookings s)"]
  by (simp add: select_booking_def insert_booking_def Let_def find_append_fresh)

lemma select_booking_delete [simp]: "select_booking (delete_booking bid s) bid = None"
  by (simp add: select_booking_def delete_booking_def find_None_iff)

lemma filter_pk_single:
  "distinct (map booking_id bs) \<Longrightarrow> find (\<lambda>b. booking_id b = bid) bs = Some b \<Longrightarrow>
   filter (\<lambda>b. booking_id b = bid) bs = [b]"
proof (induction bs)
  case Nil
  then show ?case by simp
next
  case (Cons a bs)
  show ?case
  proof (cases "booking_id a = bid")
    case True
    with Cons.prems have "a = b" and "bid \<notin> set (map booking_id bs)" by auto
    then have "filter (\<lambda>b. booking_id b = bid) bs = []"
      by (auto simp: filter_empty_conv)
    with True \<open>a = b\<close> show ?thesis by simp
  next
    case False
    with Cons show ?thesis by simp
  qed
qed

lemma no_flight_filter:
  "select_flight s fid = None \<Longrightarrow> filter (\<lambda>f. fid = flight_id f) (flights s) = []"
  by (auto simp: select_flight_def find_None_iff filter_empty_conv)

lemma no_flight_update_add:
  assumes "select_flight s fid = None"
  shows "update_seats_add n fid s = s"
proof -
  from assms have "\<forall>f \<in> set (flights s). flight_id f \<noteq> fid"
    by (auto simp: select_flight_def find_None_iff)
  then have "map (\<lambda>f. if flight_id f = fid
                       then f\<lparr>seats_available := seats_available f + n\<rparr> else f)
                 (flights s) = flights s"
    by (simp add: map_idI)
  then show ?thesis by (simp add: update_seats_add_def)
qed

subsection \<open>The concrete stores\<close>

lemma seeded_db_eq:
  "seeded_db =
     \<lparr>flights =
        [\<lparr>flight_id = 1, departure = ''New York'', destination = ''London'',
          flight_date = ''2025-07-01'', flight_time = ''08:00'', price = 750,
          seats_available = 150\<rparr>,
         \<lparr>flight_id = 2, departure = ''London'', destination = ''Paris'',
          flight_date = ''2025-07-02'', flight_time = ''10:30'', price = 200,
          seats_available = 80\<rparr>,
         \<lparr>flight_id = 3, departure = ''Paris'', destination = ''Rome'',
          flight_date = ''2025-07-03'', flight_time = ''14:00'', price = 150,
          seats_available = 100\<rparr>,
         \<lparr>flight_id = 4, departure = ''New York'', destination = ''Tokyo'',
          flight_date = ''2025-07-10'', flight_time = ''18:00'', price = 1200,
          seats_available = 200\<rparr>,
         \<lparr>flight_id = 5, departure = ''Tokyo'', destination = ''Sydney'',
          flight_date = ''2025-07-12'', flight_time = ''22:00'', price = 900,
          seats_available = 120\<rparr>],
      bookings = [], flights_seq = 5, bookings_seq = 0, last_insert_rowid = 5,
      current_date = ''2025-06-01''\<rparr>"
  by (simp add: seeded_db_def add_dummy_data_if_empty_def empty_database_def
      insert_flight_def next_rowid_def Let_def)

lemma seeded_Some: "seeded = Some seeded_db"
  by (simp add: seeded_def init_db_def seeded_db_def)

lemma seats_of_seeded: "seats_of seeded 1 = Some 150"
  by (simp add: seeded_Some seeded_db_eq seats_of_def select_flight_def)

lemma book_seeded:
  "book_flight exact_mul seeded 1 ''A. Lee'' 2 = ((True, Flight_booked), Some booked_db)"
  by (simp add: seeded_Some book_flight_def booked_db_def seeded_db_eq select_flight_def
      Let_def insert_booking_def update_seats_set_def next_rowid_def exact_mul_def)

lemma cancel_booked:
  "cancel_booking (Some booked_db) 1 = ((True, Booking_cancelled), Some cancelled_db)"
  by (simp add: cancel_booking_def booked_db_def cancelled_db_def seeded_db_eq
      select_booking_def Let_def delete_booking_def update_seats_add_def)

lemma select_orphaned:
  "select_booking orphaned_db 1 =
     Some \<lparr>booking_id = 1, bk_flight_id = 7, passenger_name = ''A. Lee'', num_seats = 2,
           total_price = 300, booking_date = ''2025-06-01''\<rparr>"
  "select_flight orphaned_db 7 = None"
  by (simp_all add: orphaned_db_def select_booking_def select_flight_def)

section \<open>Results\<close>

subsection \<open>Booking more seats than are left\<close>

text \<open>
  Claim C1. When the flight exists and \<open>num_seats\<close> is strictly greater than its current
  \<open>seats_available\<close>, \<open>book_flight\<close> returns failure with the message that carries the
  actual number of seats left, and the whole store (every flight's seats, every booking)
  is what it was before the call.
\<close>

theorem book_flight_insufficient_seats:
  assumes "seats_of m fid = Some avail" and "n > avail"
  shows "book_flight mul m fid name n = ((False, Not_enough_seats avail), m)"
proof -
  from assms(1) obtain s f where m: "m = Some s" and f: "select_flight s fid = Some f"
    and av: "seats_available f = avail"
    by (auto simp: seats_of_def split: option.splits)
  with assms(2) show ?thesis
    by (simp add: book_flight_def Let_def)
qed

text \<open>The scenario of the specification: 200 seats asked of the 150 of flight 1.\<close>

theorem book_flight_insufficient_seats_witness:
  "seats_of seeded 1 = Some 150 \<and> (200::int) > 150
   \<and> book_flight exact_mul seeded 1 ''A. Lee'' 200 = ((False, Not_enough_seats 150), seeded)"
  using book_flight_insufficient_seats[of seeded 1 150 200 exact_mul "''A. Lee''"]
    seats_of_seeded
  by simp

subsection \<open>Book, then cancel\<close>

text \<open>
  Claim C3. After a successful \<open>book_flight\<close>, the booking id is the connection's
  \<open>last_insert_rowid()\<close> (this is how the window reads it); cancelling that id at once
  succeeds, and the flight's \<open>seats_available\<close> is again what it was before the booking.
\<close>

theorem book_then_cancel_restores_seats:
  assumes "book_flight mul m fid name n = ((True, msg), m')"
  shows "\<exists>s' m''. m' = Some s'
           \<and> cancel_booking m' (last_insert_rowid s') = ((True, Booking_cancelled), m'')
           \<and> seats_of m'' fid = seats_of m fid"
proof -
  from assms obtain s f where m: "m = Some s" and f: "select_flight s fid = Some f"
    and m': "m' = Some (insert_booking fid name n (mul (price f) n)
                          (update_seats_set (seats_available f - n) fid s))"
    by (auto simp: book_flight_def Let_def split: option.splits if_splits)
  define s1 where "s1 = update_seats_set (seats_available f - n) fid s"
  define s' where "s' = insert_booking fid name n (mul (price f) n) s1"
  have sel: "select_booking s' (last_insert_rowid s') =
      Some \<lparr>booking_id = next_rowid (bookings_seq s1) (map booking_id (bookings s1)),
            bk_flight_id = fid, passenger_name = name, num_seats = n,
            total_price = mul (price f) n, booking_date = current_date s1\<rparr>"
    unfolding s'_def by (rule select_booking_insert_booking)
  have c: "cancel_booking (Some s') (last_insert_rowid s') =
      ((True, Booking_cancelled),
       Some (delete_booking (last_insert_rowid s') (update_seats_add n fid s')))"
    by (simp add: cancel_booking_def sel Let_def)
  have fid: "flight_id f = fid" using f by (rule select_flight_Some_id)
  have "seats_of (Some (delete_booking (last_insert_rowid s') (update_seats_add n fid s'))) fid
        = seats_of (Some s) fid"
    by (simp add: seats_of_def select_flight_update_seats_add s'_def s1_def
        select_flight_update_seats_set f fid)
  with c m m' show ?thesis by (simp add: s'_def s1_def)
qed

theorem book_then_cancel_restores_seats_witness:
  "book_flight exact_mul seeded 1 ''A. Lee'' 2 = ((True, Flight_booked), Some booked_db)
   \<and> (\<exists>s' m''. Some booked_db = Some s'
           \<and> cancel_booking (Some booked_db) (last_insert_rowid s')
               = ((True, Booking_cancelled), m'')
           \<and> seats_of m'' 1 = seats_of seeded 1)"
  using book_then_cancel_restores_seats[OF book_seeded] book_seeded
  by simp

subsection \<open>Cancelling a booking that is not there\<close>



subsection \<open>The price of a booking\<close>

text \<open>
  Claim C5. A successful \<open>book_flight\<close> stores a booking whose \<open>total_price\<close> is the
  product of the flight's price, as read at that moment, and \<open>num_seats\<close>. Whatever the
  \<open>flights\<close> table becomes afterwards (a changed price included), the stored row is the
  same, and every row \<open>get_booking\<close> returns for it shows that total.
\<close>

theorem total_price_snapshot:
  assumes "book_flight mul m fid name n = ((True, msg), m')"
  shows "\<exists>s f s' b. m = Some s \<and> select_flight s fid = Some f \<and> m' = Some s'
           \<and> select_booking s' (last_insert_rowid s') = Some b
           \<and> total_price b = mul (price f) n
           \<and> (\<forall>fs. select_booking (s'\<lparr>flights := fs\<rparr>) (last_insert_rowid s') = Some b)
           \<and> (\<forall>fs v. get_booking (Some (s'\<lparr>flights := fs\<rparr>)) (last_insert_rowid s') = Some v
                  \<longrightarrow> v_total_price v = mul (price f) n)"
proof -
  from assms obtain s f where m: "m = Some s" and f: "select_flight s fid = Some f"
    and m': "m' = Some (insert_booking fid name n (mul (price f) n)
                          (update_seats_set (seats_available f - n) fid s))"
    by (auto simp: book_flight_def Let_def split: option.splits if_splits)
  define s1 where "s1 = update_seats_set (seats_available f - n) fid s"
  define s' where "s' = insert_booking fid name n (mul (price f) n) s1"
  define b where
    "b = \<lparr>booking_id = next_rowid (bookings_seq s1) (map booking_id (bookings s1)),
          bk_flight_id = fid, passenger_name = name, num_seats = n,
          total_price = mul (price f) n, booking_date = current_date s1\<rparr>"
  have sel: "select_booking s' (last_insert_rowid s') = Some b"
    unfolding s'_def b_def by (rule select_booking_insert_booking)
  have tp: "total_price b = mul (price f) n" by (simp add: b_def)
  have sel': "select_booking (s'\<lparr>flights := fs\<rparr>) (last_insert_rowid s') = Some b" for fs
    using sel by (simp add: select_booking_def)
  have lir: "last_insert_rowid s' = booking_id b" "bookings s' = bookings s1 @ [b]"
    by (simp_all add: s'_def b_def insert_booking_def Let_def)
  have fresh: "booking_id b \<notin> set (map booking_id (bookings s1))"
    unfolding b_def
    using next_rowid_fresh[of "bookings_seq s1" "map booking_id (bookings s1)"] by simp
  have flt: "filter (\<lambda>x. booking_id x = last_insert_rowid s') (bookings s') = [b]"
    unfolding lir using fresh by (intro filter_fresh_append) simp_all
  have gb: "v_total_price v = mul (price f) n"
    if "get_booking (Some (s'\<lparr>flights := fs\<rparr>)) (last_insert_rowid s') = Some v" for fs v
    using that tp
    by (auto simp: get_booking_def join_bookings_flights_def flt join_row_def
        split: list.splits)
  show ?thesis
    using m f m' sel tp sel' gb unfolding s'_def s1_def by blast
qed

text \<open>The scenario of the specification: two seats at 750 are stored as 1500.\<close>

theorem total_price_snapshot_witness:
  "book_flight exact_mul seeded 1 ''A. Lee'' 2 = ((True, Flight_booked), Some booked_db)
   \<and> (\<exists>b. select_booking booked_db (last_insert_rowid booked_db) = Some b
          \<and> total_price b = 1500)"
proof -
  from total_price_snapshot[OF book_seeded]
  obtain s f b where "seeded = Some s" "select_flight s 1 = Some f"
    "select_booking booked_db (last_insert_rowid booked_db) = Some b"
    "total_price b = exact_mul (price f) 2"
    by auto
  moreover from this have "price f = 750"
    by (auto simp: seeded_Some seeded_db_eq select_flight_def)
  ultimately show ?thesis using book_seeded by (auto simp: exact_mul_def)
qed

subsection \<open>Where the booking input is validated\<close>




subsection \<open>Bookings whose flight is gone\<close>

text \<open>
  Claim C8, as the code has it. When the flight a booking references has no row,
  \<open>cancel_booking\<close> on that booking succeeds with the ordinary message "Booking cancelled
  successfully!": the \<open>UPDATE\<close> matches no row, so the \<open>flights\<close> table is unchanged, and the
  booking is deleted. No warning is reported.
\<close>

theorem cancel_orphan_booking:
  assumes "select_booking s bid = Some b" and "select_flight s (bk_flight_id b) = None"
  shows "\<exists>s'. cancel_booking (Some s) bid = ((True, Booking_cancelled), Some s')
           \<and> flights s' = flights s
           \<and> bookings s' = filter (\<lambda>b. booking_id b \<noteq> bid) (bookings s)
           \<and> select_booking s' bid = None"
  using assms
  by (simp add: cancel_booking_def Let_def no_flight_update_add)
     (simp add: delete_booking_def select_booking_def find_None_iff)

theorem cancel_orphan_booking_witness:
  "select_booking orphaned_db 1 =
     Some \<lparr>booking_id = 1, bk_flight_id = 7, passenger_name = ''A. Lee'', num_seats = 2,
           total_price = 300, booking_date = ''2025-06-01''\<rparr>
   \<and> select_flight orphaned_db 7 = None
   \<and> (\<exists>s'. cancel_booking (Some orphaned_db) 1 = ((True, Booking_cancelled), Some s')
           \<and> flights s' = flights orphaned_db
           \<and> bookings s' = filter (\<lambda>b. booking_id b \<noteq> 1) (bookings orphaned_db)
           \<and> select_booking s' 1 = None)"
  using cancel_orphan_booking[of orphaned_db 1, OF select_orphaned(1)] select_orphaned
  by simp

text \<open>
  The claim as it is written asks for a warning. The result for the orphaned booking is
  the very pair returned for a booking whose flight exists.
\<close>

theorem cancel_orphan_warning_counterexample:
  "fst (cancel_booking (Some orphaned_db) 1) = (True, Booking_cancelled)
   \<and> fst (cancel_booking (Some booked_db) 1) = (True, Booking_cancelled)"
  by (simp add: cancel_booked)
     (simp add: cancel_booking_def select_orphaned Let_def)

subsection \<open>Looking up a booking whose flight is gone\<close>

text \<open>
  Claim C10. When the booking with the given id is in the table but no flight row has the
  id it references, the join of \<open>get_booking\<close> has no row and \<open>get_booking\<close> returns \<open>None\<close>.
\<close>

theorem get_booking_orphan_not_found:
  assumes "pk_bookings s" and "select_booking s bid = Some b"
    and "select_flight s (bk_flight_id b) = None"
  shows "get_booking (Some s) bid = None"
proof -
  have "filter (\<lambda>b. booking_id b = bid) (bookings s) = [b]"
    using assms(1,2) unfolding pk_bookings_def select_booking_def by (rule filter_pk_single)
  moreover have "filter (\<lambda>f. bk_flight_id b = flight_id f) (flights s) = []"
    using assms(3) by (rule no_flight_filter)
  ultimately show ?thesis
    by (simp add: get_booking_def join_bookings_flights_def)
qed

theorem get_booking_orphan_not_found_witness:
  "pk_bookings orphaned_db
   \<and> select_booking orphaned_db 1 =
       Some \<lparr>booking_id = 1, bk_flight_id = 7, passenger_name = ''A. Lee'', num_seats = 2,
             total_price = 300, booking_date = ''2025-06-01''\<rparr>
   \<and> select_flight orphaned_db 7 = None
   \<and> get_booking (Some orphaned_db) 1 = None"
proof -
  have pk: "pk_bookings orphaned_db" by (simp add: pk_bookings_def orphaned_db_def)
  from get_booking_orphan_not_found[OF pk select_orphaned(1)] select_orphaned(2)
  have "get_booking (Some orphaned_db) 1 = None" by simp
  with pk select_orphaned show ?thesis by simp
qed

subsection \<open>Seats never go below zero\<close>

lemma step_seats_nonneg:
  assumes "seats_nonneg m" and "book_nonneg op"
  shows "seats_nonneg (step mul m op)"
proof (cases m)
  case None
  then show ?thesis
    by (cases op) (simp_all add: book_flight_def cancel_booking_def seats_nonneg_def)
next
  case (Some s)
  with assms(1) have fl: "list_all (\<lambda>f. 0 \<le> seats_available f) (flights s)"
    and bk: "list_all (\<lambda>b. 0 \<le> num_seats b) (bookings s)"
    by (simp_all add: seats_nonneg_def)
  show ?thesis
  proof (cases op)
    case (Book fid name n)
    with assms(2) have n: "0 \<le> n" by simp
    show ?thesis
      using fl bk n Some Book
      by (auto simp: book_flight_def Let_def seats_nonneg_def insert_booking_def
          update_seats_set_def list_all_iff split: option.splits)
  next
    case (Cancel bid)
    show ?thesis
    proof (cases "select_booking s bid")
      case None
      with Some Cancel assms(1) show ?thesis by (simp add: cancel_booking_def)
    next
      case (Some b)
      then have "b \<in> set (bookings s)"
        by (auto simp: select_booking_def find_Some_iff)
      with bk have "0 \<le> num_seats b" by (simp add: list_all_iff)
      with fl bk Some \<open>m = Some s\<close> Cancel show ?thesis
        by (auto simp: cancel_booking_def Let_def seats_nonneg_def delete_booking_def
            update_seats_add_def list_all_iff)
    qed
  qed
qed

lemma run_seats_nonneg:
  "seats_nonneg m \<Longrightarrow> list_all book_nonneg ops \<Longrightarrow> seats_nonneg (run mul m ops)"
  unfolding run_def
  by (induction ops arbitrary: m) (auto intro: step_seats_nonneg)

lemma list_all_take: "list_all P xs \<Longrightarrow> list_all P (take k xs)"
  by (auto simp: list_all_iff dest: in_set_takeD)

lemma seats_nonneg_seeded: "seats_nonneg seeded"
  by (simp add: seeded_Some seeded_db_eq seats_nonneg_def)

text \<open>
  Claim C7, as the code has it. Start from a store in which no flight and no booking has a
  negative number of seats, and apply any sequence of \<open>cancel_booking\<close> calls and of
  \<open>book_flight\<close> calls whose \<open>num_seats\<close> is not negative (the window's handler only lets
  positive numbers through). Then after every prefix of the sequence every flight has
  \<open>seats_available \<ge> 0\<close>.
\<close>

theorem seats_never_negative:
  assumes "seats_nonneg m" and "list_all book_nonneg ops" and "k \<le> length ops"
  shows "list_all (\<lambda>f. 0 \<le> seats_available f) (flights_of (run mul m (take k ops)))"
proof -
  have "seats_nonneg (run mul m (take k ops))"
    using assms(1) list_all_take[OF assms(2)] by (rule run_seats_nonneg)
  then show ?thesis
    by (cases "run mul m (take k ops)") (simp_all add: seats_nonneg_def flights_of_def)
qed

theorem seats_never_negative_witness:
  "seats_nonneg seeded
   \<and> list_all book_nonneg [Book 1 ''A. Lee'' 2, Cancel 1]
   \<and> (1::nat) \<le> length [Book 1 ''A. Lee'' 2, Cancel 1]
   \<and> list_all (\<lambda>f. 0 \<le> seats_available f)
        (flights_of (run exact_mul seeded (take 1 [Book 1 ''A. Lee'' 2, Cancel 1])))"
  using seats_never_negative[of seeded "[Book 1 ''A. Lee'' 2, Cancel 1]" 1 exact_mul]
    seats_nonneg_seeded
  by simp

text \<open>
  The claim as it is written, for every sequence of \<open>book_flight\<close> and \<open>cancel_booking\<close>
  calls, fails: \<open>book_flight\<close> accepts a negative \<open>num_seats\<close>, and cancelling such a
  booking subtracts seats. On the seeded store, booking minus five seats on flight 1,
  then the 155 seats then available, then cancelling the first booking leaves flight 1
  with minus five seats.
\<close>

theorem seats_never_negative_counterexample:
  "seats_nonneg seeded
   \<and> seats_of (run exact_mul seeded [Book 1 [] (- 5), Book 1 [] 155, Cancel 1]) 1 = Some (- 5)"
  by (simp add: seats_nonneg_seeded)
     (simp add: run_def seeded_Some seeded_db_eq book_flight_def cancel_booking_def
      select_flight_def select_booking_def Let_def insert_booking_def update_seats_set_def
      update_seats_add_def delete_booking_def next_rowid_def seats_of_def)

subsection \<open>Seat conservation\<close>




lemma pk_update_seats [simp]:
  "pk_bookings (update_seats_set v fid s) = pk_bookings s"
  "pk_bookings (update_seats_add n fid s) = pk_bookings s"
  by (simp_all add: pk_bookings_def)



lemma find_append_absent: "find P xs = None \<Longrightarrow> P x \<Longrightarrow> find P (xs @ [x]) = Some x"
  by (induction xs) (auto split: if_splits)

lemma add_flight_creates:
  assumes "fk_bookings s"
  shows "\<exists>s1. add_flight (Some s) dep dest date time pr seats = (True, Some s1)
           \<and> seats_of (Some s1) (last_insert_rowid s1) = Some seats
           \<and> booked_seats (Some s1) (last_insert_rowid s1) = 0
           \<and> pk_bookings s1 = pk_bookings s"
proof -
  define fid where "fid = next_rowid (flights_seq s) (map flight_id (flights s))"
  have fresh: "fid \<notin> set (map flight_id (flights s))"
    unfolding fid_def by (rule next_rowid_fresh)
  then have nf: "find (\<lambda>f. flight_id f = fid) (flights s) = None"
    by (auto simp: find_None_iff)
  have "\<forall>b \<in> set (bookings s). bk_flight_id b \<noteq> fid"
  proof
    fix b assume "b \<in> set (bookings s)"
    with assms obtain f where "f \<in> set (flights s)" "flight_id f = bk_flight_id b"
      by (auto simp: fk_bookings_def list_all_iff list_ex_iff)
    then have "bk_flight_id b \<in> set (map flight_id (flights s))"
      by (metis image_eqI set_map)
    with fresh show "bk_flight_id b \<noteq> fid" by auto
  qed
  then have "filter (\<lambda>b. bk_flight_id b = fid) (bookings s) = []"
    by (auto simp: filter_empty_conv)
  moreover have "find (\<lambda>f. flight_id f = fid) (flights s @ [g]) = Some g"
    if "flight_id g = fid" for g :: "'a flight"
    using nf that by (intro find_append_absent) simp_all
  ultimately show ?thesis
    by (simp add: add_flight_def insert_flight_def Let_def seats_of_def select_flight_def
        booked_seats_def bookings_of_def pk_bookings_def fid_def[symmetric])
qed



subsection \<open>Searching flights\<close>







end
